theory Spec2Isabelle
  imports Complex_Main
begin

section \<open>Data model (types.ts)\<close>

text \<open>
  A JavaScript number is modelled by the real that the double denotes; the arithmetic
  of the source rounds as doubles do (next section). The one non-number value that the
  transaction form can produce, the NaN that \<^verbatim>\<open>parseFloat\<close> returns for an empty or
  non-numeric text field, is modelled as \<open>None\<close> of \<open>real option\<close>.
  The \<^verbatim>\<open>date\<close> string of a history entry is modelled by the epoch milliseconds that
  \<^verbatim>\<open>new Date(date).getTime()\<close> reads from it.
  Optional fields (\<^verbatim>\<open>discountPercentage?\<close>, \<^verbatim>\<open>pointsUsed?\<close>) and nullable values are
  options. Field names shared by several interfaces carry a prefix in all but one of them.
\<close>

record TransactionHistory =
  date :: int
  bill :: real
  tx_discountPercentage :: "real option"
  tx_finalBill :: real
  tx_pointsUsed :: "real option"
  tx_points :: real

record Customer =
  mobile :: string
  name :: string
  pin :: string
  points :: real
  totalSpent :: real
  history :: "TransactionHistory list"

datatype Tier = Bronze | Silver | Gold | Platinum

record TierThreshold =
  minSpend :: real
  minPoints :: real

text \<open>
  \<^verbatim>\<open>TierSettings\<close>, \<^verbatim>\<open>DiscountSettings\<close> and \<^verbatim>\<open>DeadlineSettings\<close> are three interfaces with
  the same four keys; they are instances of one record of four fields.
\<close>

record 'a TierTable =
  bronze :: 'a
  silver :: 'a
  gold :: 'a
  platinum :: 'a

type_synonym TierSettings = "TierThreshold TierTable"
type_synonym DiscountSettings = "real TierTable"
type_synonym DeadlineSettings = "real TierTable"

record Admin =
  businessName :: string
  username :: string
  password :: string

record LastTransactionDetails =
  ltd_mobile :: string
  customerName :: string
  ltd_businessName :: string
  ltd_finalBill :: real
  ltd_pointsUsed :: real
  ltd_pointsEarned :: real
  newTotalPoints :: real
  deadlineDays :: "real option"

text \<open>The order of the tiers, Bronze lowest.\<close>

fun tier_rank :: "Tier \<Rightarrow> nat" where
  "tier_rank Bronze = 0"
| "tier_rank Silver = 1"
| "tier_rank Gold = 2"
| "tier_rank Platinum = 3"

text \<open>\<^verbatim>\<open>settings[tier.toLowerCase()]\<close>: the entry of a settings object for a tier.\<close>

fun tierEntry :: "'a TierTable \<Rightarrow> Tier \<Rightarrow> 'a" where
  "tierEntry s Bronze = bronze s"
| "tierEntry s Silver = silver s"
| "tierEntry s Gold = gold s"
| "tierEntry s Platinum = platinum s"

section \<open>Numbers: double arithmetic\<close>

text \<open>
  Every \<^verbatim>\<open>number\<close> of the source is an IEEE 754 binary64 value: 53 significant bits,
  and each of \<^verbatim>\<open>+\<close>, \<^verbatim>\<open>-\<close>, \<^verbatim>\<open>*\<close>, \<^verbatim>\<open>/\<close> returns the exact result rounded to the
  nearest such value, ties to the even significand. \<open>fl\<close> is that rounding on the
  reals. The exponent is not bounded here: overflow to Infinity (beyond about 1.8e308)
  and the subnormal numbers (below about 2.2e-308) are not modelled.
  Comparisons, \<^verbatim>\<open>Math.min\<close>, \<^verbatim>\<open>Math.max\<close> and \<^verbatim>\<open>Math.floor\<close> are exact.
  The bill and the customer record are computed in this arithmetic. Timestamps, days
  and deadline settings are whole numbers and are computed with in the integers.
\<close>

text \<open>The binary exponent of a positive number: \<open>2 powi binade x \<le> x < 2 powi (binade x + 1)\<close>.\<close>

function binade :: "real \<Rightarrow> int" where
  "binade x =
     (if x \<le> 0 then 0
      else if 2 \<le> x then binade (x / 2) + 1
      else if x < 1 then binade (2 * x) - 1
      else 0)"
  by pat_completeness auto
termination
proof (relation "measure (\<lambda>x. nat \<bar>\<lfloor>log 2 x\<rfloor>\<bar>)")
  show "wf (measure (\<lambda>x. nat \<bar>\<lfloor>log 2 x\<rfloor>\<bar>))" by simp
next
  fix x :: real
  assume a: "\<not> x \<le> 0" "2 \<le> x"
  have e: "\<lfloor>log 2 (x / 2)\<rfloor> = \<lfloor>log 2 x\<rfloor> - 1"
    using a by (simp add: log_divide)
  have "1 \<le> log 2 x"
    using a by (simp add: le_log_iff)
  then have f: "1 \<le> \<lfloor>log 2 x\<rfloor>"
    by (simp add: le_floor_iff)
  have "nat \<bar>\<lfloor>log 2 (x / 2)\<rfloor>\<bar> < nat \<bar>\<lfloor>log 2 x\<rfloor>\<bar>"
    unfolding e using f by linarith
  then show "(x / 2, x) \<in> measure (\<lambda>x. nat \<bar>\<lfloor>log 2 x\<rfloor>\<bar>)"
    by (simp only: in_measure)
next
  fix x :: real
  assume a: "\<not> x \<le> 0" "\<not> 2 \<le> x" "x < 1"
  have e: "\<lfloor>log 2 (2 * x)\<rfloor> = \<lfloor>log 2 x\<rfloor> + 1"
    using a by (simp add: log_mult)
  have f: "\<lfloor>log 2 x\<rfloor> < 0"
    using a by (simp add: floor_less_iff)
  have "nat \<bar>\<lfloor>log 2 (2 * x)\<rfloor>\<bar> < nat \<bar>\<lfloor>log 2 x\<rfloor>\<bar>"
    unfolding e using f by linarith
  then show "(2 * x, x) \<in> measure (\<lambda>x. nat \<bar>\<lfloor>log 2 x\<rfloor>\<bar>)"
    by (simp only: in_measure)
qed

declare binade.simps [simp del]

text \<open>Rounding to the nearest integer, a tie to the even one.\<close>

definition roundHalfEven :: "real \<Rightarrow> int" where
  "roundHalfEven y =
     (let f = \<lfloor>y\<rfloor>; r = y - real_of_int f
      in if r < 1 / 2 then f
         else if 1 / 2 < r then f + 1
         else if even f then f else f + 1)"

text \<open>
  Rounding to 53 significant bits: the number is scaled so that its magnitude lies
  between \<open>2 ^ 52\<close> and \<open>2 ^ 53\<close>, rounded to an integer and scaled back.
\<close>

definition flPos :: "real \<Rightarrow> real" where
  "flPos x =
     (let e = binade x - 52
      in real_of_int (roundHalfEven (x / 2 powi e)) * 2 powi e)"

definition fl :: "real \<Rightarrow> real" where
  "fl x = (if x = 0 then 0 else sgn x * flPos \<bar>x\<bar>)"

definition jsAdd :: "real \<Rightarrow> real \<Rightarrow> real" where
  "jsAdd x y = fl (x + y)"

definition jsSub :: "real \<Rightarrow> real \<Rightarrow> real" where
  "jsSub x y = fl (x - y)"

definition jsMul :: "real \<Rightarrow> real \<Rightarrow> real" where
  "jsMul x y = fl (x * y)"

text \<open>The division of the bill has the constant divisor 100, so none is by zero.\<close>

definition jsDiv :: "real \<Rightarrow> real \<Rightarrow> real" where
  "jsDiv x y = fl (x / y)"

text \<open>
  \<^verbatim>\<open>parseFloat\<close> of a text field: the field is held as the decimal number that its text
  denotes (\<open>None\<close> when the text denotes none), and the result is the nearest double.
\<close>

definition parseFloat :: "real option \<Rightarrow> real option" where
  "parseFloat v = map_option fl v"

text \<open>A sum of numbers taken from left to right in double arithmetic.\<close>

definition jsSum :: "real list \<Rightarrow> real" where
  "jsSum xs = foldl jsAdd 0 xs"

section \<open>Tier classification (utils/tierUtils)\<close>

definition getTierBySpend :: "Customer \<Rightarrow> TierSettings \<Rightarrow> Tier" where
  "getTierBySpend customer settings =
     (if totalSpent customer \<ge> minSpend (platinum settings) then Platinum
      else if totalSpent customer \<ge> minSpend (gold settings) then Gold
      else if totalSpent customer \<ge> minSpend (silver settings) then Silver
      else Bronze)"

definition getTierByPoints :: "Customer \<Rightarrow> TierSettings \<Rightarrow> Tier" where
  "getTierByPoints customer settings =
     (if points customer \<ge> minPoints (platinum settings) then Platinum
      else if points customer \<ge> minPoints (gold settings) then Gold
      else if points customer \<ge> minPoints (silver settings) then Silver
      else Bronze)"

definition getCustomerTier :: "Customer \<Rightarrow> TierSettings \<Rightarrow> Tier" where
  "getCustomerTier customer settings =
     (if totalSpent customer \<ge> minSpend (platinum settings)
         \<or> points customer \<ge> minPoints (platinum settings) then Platinum
      else if totalSpent customer \<ge> minSpend (gold settings)
         \<or> points customer \<ge> minPoints (gold settings) then Gold
      else if totalSpent customer \<ge> minSpend (silver settings)
         \<or> points customer \<ge> minPoints (silver settings) then Silver
      else Bronze)"

section \<open>Discount eligibility (Dashboard.tsx, checkDiscountEligibility)\<close>

record Eligibility =
  eligible :: bool
  daysSinceLastTxn :: "int option"
  deadline :: "real option"
  pointsTier :: "Tier option"

definition noEligibilityData :: Eligibility where
  "noEligibilityData =
     \<lparr>eligible = True, daysSinceLastTxn = None, deadline = None, pointsTier = None\<rparr>"

text \<open>
  \<^verbatim>\<open>history.reduce((latest, tx) => new Date(tx.date) > new Date(latest.date) ? tx : latest)\<close>
  on a non-empty history: the first entry is the initial \<^verbatim>\<open>latest\<close>, the rest is folded
  from left to right.
\<close>

definition laterOf :: "TransactionHistory \<Rightarrow> TransactionHistory \<Rightarrow> TransactionHistory" where
  "laterOf latest tx = (if date tx > date latest then tx else latest)"

definition lastTransaction :: "TransactionHistory \<Rightarrow> TransactionHistory list \<Rightarrow> TransactionHistory" where
  "lastTransaction first rest = foldl laterOf first rest"

definition msPerDay :: int where
  "msPerDay = 1000 * 60 * 60 * 24"

text \<open>\<open>today\<close> is the reading of the clock, \<^verbatim>\<open>new Date().getTime()\<close>.\<close>

definition checkDiscountEligibility ::
  "int \<Rightarrow> Customer \<Rightarrow> DeadlineSettings \<Rightarrow> TierSettings \<Rightarrow> Eligibility" where
  "checkDiscountEligibility today customer deadlineSettings tierSettings =
     (case history customer of
        [] \<Rightarrow> noEligibilityData
      | first # rest \<Rightarrow>
          (let lastTxnDate = date (lastTransaction first rest);
               days = (today - lastTxnDate) div msPerDay;
               pt = getTierByPoints customer tierSettings;
               dl = tierEntry deadlineSettings pt
           in \<lparr>eligible = (real_of_int days \<le> dl), daysSinceLastTxn = Some days,
                deadline = Some dl, pointsTier = Some pt\<rparr>))"

section \<open>The transaction form (Dashboard.tsx, TransactionSection)\<close>

text \<open>
  The props and the state of the component that the bill computation and the submit
  handler read. The three numeric text fields are held as the decimal numbers that their
  texts denote: \<open>None\<close> is an empty or non-numeric field, which \<^verbatim>\<open>parseFloat\<close> reads
  as NaN.
\<close>

record TransactionForm =
  currentUser :: "Admin option"
  customers :: "Customer list"
  tierSettings :: TierSettings
  discountSettings :: DiscountSettings
  deadlineSettings :: DeadlineSettings
  countryCode :: string
  mobileField :: string
  nameField :: string
  pinField :: string
  billAmount :: "real option"
  cashGiven :: "real option"
  pointsToUse :: "real option"
  currentCustomer :: "Customer option"
  isNewCustomer :: bool
  usePointsAndDiscount :: bool
  eligibility :: Eligibility

text \<open>\<^verbatim>\<open>v || 0\<close> on a number: NaN and zero both give zero.\<close>

definition orZero :: "real option \<Rightarrow> real" where
  "orZero v = (case v of None \<Rightarrow> 0 | Some x \<Rightarrow> (if x = 0 then 0 else x))"

record TierInfo =
  spendTier :: Tier
  ti_pointsTier :: Tier
  effectiveTier :: Tier

definition tierInfo :: "TransactionForm \<Rightarrow> TierInfo option" where
  "tierInfo st =
     (case currentCustomer st of
        None \<Rightarrow> None
      | Some c \<Rightarrow> Some \<lparr>spendTier = getTierBySpend c (tierSettings st),
                         ti_pointsTier = getTierByPoints c (tierSettings st),
                         effectiveTier = getCustomerTier c (tierSettings st)\<rparr>)"

record BillDetails =
  subtotal :: real
  discountPercentage :: real
  discountAmount :: real
  finalBill :: real
  pointsUsed :: real
  cashPayable :: real
  pointsEarned :: real

text \<open>
  The body of \<^verbatim>\<open>billDetails\<close> binds its locals one after the other; each local is a
  function of the form here, in the order of the source, and \<open>billDetails\<close> collects them.
\<close>

definition bd_subtotal :: "TransactionForm \<Rightarrow> real" where
  "bd_subtotal st = orZero (parseFloat (billAmount st))"

text \<open>
  The guard of the discount; \<^verbatim>\<open>tierInfo\<close> is part of it. The percentage read from the
  settings goes through \<^verbatim>\<open>|| 0\<close>, which leaves a number as it is.
\<close>

definition discountApplies :: "TransactionForm \<Rightarrow> bool" where
  "discountApplies st =
     (usePointsAndDiscount st \<and> eligible (eligibility st) \<and> currentCustomer st \<noteq> None
      \<and> bd_subtotal st > 0 \<and> tierInfo st \<noteq> None)"

definition bd_discountPercentage :: "TransactionForm \<Rightarrow> real" where
  "bd_discountPercentage st =
     (if discountApplies st
      then (case tierInfo st of
              Some ti \<Rightarrow> tierEntry (discountSettings st) (effectiveTier ti)
            | None \<Rightarrow> 0)
      else 0)"

definition bd_discountAmount :: "TransactionForm \<Rightarrow> real" where
  "bd_discountAmount st =
     (if discountApplies st
      then jsMul (bd_subtotal st) (jsDiv (bd_discountPercentage st) 100)
      else 0)"

definition bd_finalBill :: "TransactionForm \<Rightarrow> real" where
  "bd_finalBill st = jsSub (bd_subtotal st) (bd_discountAmount st)"

definition bd_pointsUsed :: "TransactionForm \<Rightarrow> real" where
  "bd_pointsUsed st =
     (case currentCustomer st of
        Some c \<Rightarrow>
          (if usePointsAndDiscount st \<and> points c > 0
           then min (min (points c) (bd_finalBill st)) (orZero (parseFloat (pointsToUse st)))
           else 0)
      | None \<Rightarrow> 0)"

definition bd_cashPayable :: "TransactionForm \<Rightarrow> real" where
  "bd_cashPayable st = jsSub (bd_finalBill st) (bd_pointsUsed st)"

definition bd_pointsEarned :: "TransactionForm \<Rightarrow> real" where
  "bd_pointsEarned st =
     max 0 (real_of_int \<lfloor>jsSub (orZero (parseFloat (cashGiven st))) (bd_cashPayable st)\<rfloor>)"

definition billDetails :: "TransactionForm \<Rightarrow> BillDetails" where
  "billDetails st =
     \<lparr>subtotal = bd_subtotal st, discountPercentage = bd_discountPercentage st,
      discountAmount = bd_discountAmount st, finalBill = bd_finalBill st,
      pointsUsed = bd_pointsUsed st, cashPayable = bd_cashPayable st,
      pointsEarned = bd_pointsEarned st\<rparr>"

section \<open>Committing a transaction (Dashboard.tsx, handleTransactionSubmit)\<close>

text \<open>The two alerts after which the handler returns without touching any state.\<close>

datatype alert = InvalidBillAmount | InsufficientCash


definition targetMobile :: "TransactionForm \<Rightarrow> string" where
  "targetMobile st =
     (case currentCustomer st of
        Some c \<Rightarrow> mobile c
      | None \<Rightarrow> countryCode st @ mobileField st)"

definition newHistoryEntry :: "int \<Rightarrow> TransactionForm \<Rightarrow> TransactionHistory" where
  "newHistoryEntry now st =
     (let b = billDetails st
      in \<lparr>date = now,
          bill = subtotal b,
          tx_discountPercentage =
            (if usePointsAndDiscount st \<and> eligible (eligibility st)
             then Some (discountPercentage b) else None),
          tx_finalBill = finalBill b,
          tx_pointsUsed =
            Some (if usePointsAndDiscount st \<and> eligible (eligibility st)
                  then pointsUsed b else 0),
          tx_points = pointsEarned b\<rparr>)"

text \<open>\<^verbatim>\<open>name || "Guest"\<close>: the empty string is falsy.\<close>

definition nameOrGuest :: "string \<Rightarrow> string" where
  "nameOrGuest n = (if n = [] then ''Guest'' else n)"

text \<open>The callback of \<^verbatim>\<open>customers.map\<close> in the branch of an existing customer.\<close>

definition updateCustomer :: "int \<Rightarrow> TransactionForm \<Rightarrow> Customer \<Rightarrow> Customer" where
  "updateCustomer now st c =
     (if mobile c \<noteq> targetMobile st then c
      else c\<lparr>points := jsAdd (jsSub (points c) (pointsUsed (billDetails st)))
                               (pointsEarned (billDetails st)),
              totalSpent := jsAdd (totalSpent c) (finalBill (billDetails st)),
              history := history c @ [newHistoryEntry now st]\<rparr>)"

text \<open>
  The callback also assigns \<^verbatim>\<open>newTotalPoints\<close> for every customer it updates: the variable
  starts at 0 and ends with the final points of the last customer that matched.
\<close>

definition assignedTotalPoints :: "TransactionForm \<Rightarrow> real" where
  "assignedTotalPoints st =
     foldl (\<lambda>acc c. if mobile c \<noteq> targetMobile st then acc
                     else jsAdd (jsSub (points c) (pointsUsed (billDetails st)))
                                (pointsEarned (billDetails st)))
           0 (customers st)"

definition businessNameOf :: "Admin option \<Rightarrow> string" where
  "businessNameOf u =
     (case u of None \<Rightarrow> ''Our Store''
      | Some a \<Rightarrow> (if businessName a = [] then ''Our Store'' else businessName a))"

definition transactionDetails ::
  "TransactionForm \<Rightarrow> real \<Rightarrow> real option \<Rightarrow> LastTransactionDetails" where
  "transactionDetails st newTotal days =
     \<lparr>ltd_mobile = targetMobile st,
      customerName = nameOrGuest (nameField st),
      ltd_businessName = businessNameOf (currentUser st),
      ltd_finalBill = finalBill (billDetails st),
      ltd_pointsUsed = pointsUsed (billDetails st),
      ltd_pointsEarned = pointsEarned (billDetails st),
      newTotalPoints = newTotal,
      deadlineDays = days\<rparr>"

text \<open>
  The handler either alerts and returns (\<open>Inl\<close>), or sets the customer collection and the
  details of the last transaction (\<open>Inr\<close>). Its own \<^verbatim>\<open>cash\<close> is \<^verbatim>\<open>parseFloat(cashGiven)\<close>
  without a default, and a comparison with NaN is false. \<open>now\<close> is the clock reading
  that dates the history entry. The deadline settings are whole numbers (the settings
  form stores \<^verbatim>\<open>parseInt\<close> results) and so are the days since the last transaction, so
  their difference is the exact one.
\<close>

definition handleTransactionSubmit ::
  "int \<Rightarrow> TransactionForm \<Rightarrow> alert + (Customer list \<times> LastTransactionDetails)" where
  "handleTransactionSubmit now st =
     (let b = billDetails st;
          cash = parseFloat (cashGiven st)
      in if subtotal b = 0 \<or> subtotal b \<le> 0 then Inl InvalidBillAmount
         else if (case cash of None \<Rightarrow> False | Some x \<Rightarrow> x < cashPayable b)
              then Inl InsufficientCash
         else if isNewCustomer st then
           (let newTotal = pointsEarned b;
                newCustomer = \<lparr>mobile = targetMobile st, name = nameOrGuest (nameField st),
                               pin = pinField st, points = newTotal, totalSpent = finalBill b,
                               history = [newHistoryEntry now st]\<rparr>
            in Inr (customers st @ [newCustomer],
                    transactionDetails st newTotal (Some (bronze (deadlineSettings st)))))
         else
           (let updatedCustomers = map (updateCustomer now st) (customers st);
                newTotal = assignedTotalPoints st;
                days =
                  (case (deadline (eligibility st), daysSinceLastTxn (eligibility st)) of
                     (Some dl, Some d) \<Rightarrow> Some (max 0 (dl - real_of_int d))
                   | _ \<Rightarrow>
                       (case currentCustomer st of
                          Some c \<Rightarrow>
                            Some (tierEntry (deadlineSettings st)
                                    (getTierByPoints (c\<lparr>points := newTotal\<rparr>) (tierSettings st)))
                        | None \<Rightarrow> None))
            in Inr (updatedCustomers, transactionDetails st newTotal days)))"



section \<open>Default settings (App.tsx) and example forms\<close>

definition DEFAULT_TIER_SETTINGS :: TierSettings where
  "DEFAULT_TIER_SETTINGS =
     \<lparr>bronze = \<lparr>minSpend = 0, minPoints = 0\<rparr>,
      silver = \<lparr>minSpend = 2000, minPoints = 100\<rparr>,
      gold = \<lparr>minSpend = 10000, minPoints = 500\<rparr>,
      platinum = \<lparr>minSpend = 50000, minPoints = 2500\<rparr>\<rparr>"

definition DEFAULT_DISCOUNT_SETTINGS :: DiscountSettings where
  "DEFAULT_DISCOUNT_SETTINGS = \<lparr>bronze = 0, silver = 5, gold = 10, platinum = 15\<rparr>"

definition DEFAULT_DEADLINE_SETTINGS :: DeadlineSettings where
  "DEFAULT_DEADLINE_SETTINGS = \<lparr>bronze = 365, silver = 180, gold = 90, platinum = 60\<rparr>"

text \<open>
  The form as the component first renders it (the initial values of its \<^verbatim>\<open>useState\<close>
  calls), over an empty collection and the default settings.
\<close>

definition initialForm :: TransactionForm where
  "initialForm =
     \<lparr>currentUser = None, customers = [],
      tierSettings = DEFAULT_TIER_SETTINGS,
      discountSettings = DEFAULT_DISCOUNT_SETTINGS,
      deadlineSettings = DEFAULT_DEADLINE_SETTINGS,
      countryCode = ''+91'', mobileField = [], nameField = [], pinField = [],
      billAmount = None, cashGiven = None, pointsToUse = None,
      currentCustomer = None, isNewCustomer = False, usePointsAndDiscount = False,
      eligibility = noEligibilityData\<rparr>"

text \<open>
  A customer with two purchases, Gold by spend and Silver by points, whose last
  purchase was on day 3.
\<close>

definition asha :: Customer where
  "asha =
     \<lparr>mobile = ''+919876543210'', name = ''Asha'', pin = ''1234'',
      points = 200, totalSpent = 12000,
      history =
        [\<lparr>date = 1000, bill = 5000, tx_discountPercentage = None, tx_finalBill = 5000,
          tx_pointsUsed = Some 0, tx_points = 150\<rparr>,
         \<lparr>date = 3 * 86400000, bill = 7000, tx_discountPercentage = None,
          tx_finalBill = 7000, tx_pointsUsed = Some 0, tx_points = 50\<rparr>]\<rparr>"

text \<open>
  Asha, looked up on day 13, buys for 1000 with the redemption box ticked and 50 points
  requested, and hands over 900.
\<close>

definition redeemForm :: TransactionForm where
  "redeemForm =
     initialForm\<lparr>customers := [asha], mobileField := ''9876543210'', nameField := ''Asha'',
                 pinField := ''1234'', billAmount := Some 1000, cashGiven := Some 900,
                 pointsToUse := Some 50, currentCustomer := Some asha,
                 usePointsAndDiscount := True,
                 eligibility := \<lparr>eligible = True, daysSinceLastTxn = Some 10,
                                 deadline = Some 180, pointsTier = Some Silver\<rparr>\<rparr>"

text \<open>The same purchase paid in full with 1000 in cash and the redemption box not ticked.\<close>

definition plainForm :: TransactionForm where
  "plainForm = redeemForm\<lparr>cashGiven := Some 1000, pointsToUse := None,
                           usePointsAndDiscount := False\<rparr>"

text \<open>An unknown mobile number: a new customer buys for 1000 and hands over 1000.\<close>

definition newCustomerForm :: TransactionForm where
  "newCustomerForm =
     initialForm\<lparr>mobileField := ''9123456780'', nameField := ''Meera'', pinField := ''4321'',
                 billAmount := Some 1000, cashGiven := Some 1000, isNewCustomer := True\<rparr>"

text \<open>
  A customer who is Gold by points (deadline 90 days) and whose last purchase was 100
  days before the lookup: no longer eligible. The redemption box is ticked with 50
  points requested, the bill is 1000 and 950 is handed over.
\<close>

definition ravi :: Customer where
  "ravi =
     \<lparr>mobile = ''+919000000001'', name = ''Ravi'', pin = ''0000'',
      points = 600, totalSpent = 1500,
      history =
        [\<lparr>date = 0, bill = 1500, tx_discountPercentage = None, tx_finalBill = 1500,
          tx_pointsUsed = Some 0, tx_points = 600\<rparr>]\<rparr>"

definition lapsedForm :: TransactionForm where
  "lapsedForm =
     initialForm\<lparr>customers := [asha, ravi], mobileField := ''9000000001'',
                 nameField := ''Ravi'', pinField := ''0000'',
                 billAmount := Some 1000, cashGiven := Some 950, pointsToUse := Some 50,
                 currentCustomer := Some ravi, usePointsAndDiscount := True,
                 eligibility := \<lparr>eligible = False, daysSinceLastTxn = Some 100,
                                 deadline = Some 90, pointsTier = Some Gold\<rparr>\<rparr>"

text \<open>
  A customer record imported without history, Bronze by points, who buys for 1000 and
  hands over 1020: the 20 points earned lift the balance to 110, Silver by points.
\<close>

definition kiran :: Customer where
  "kiran =
     \<lparr>mobile = ''+919000000002'', name = ''Kiran'', pin = ''1111'',
      points = 90, totalSpent = 0, history = []\<rparr>"

definition importedForm :: TransactionForm where
  "importedForm =
     initialForm\<lparr>customers := [kiran], mobileField := ''9000000002'',
                 nameField := ''Kiran'', pinField := ''1111'',
                 billAmount := Some 1000, cashGiven := Some 1020,
                 currentCustomer := Some kiran\<rparr>"

text \<open>
  Asha's form with the redemption box not ticked and \<^verbatim>\<open>-5\<close> typed into the points field.
\<close>

definition negativeRequestForm :: TransactionForm where
  "negativeRequestForm = plainForm\<lparr>pointsToUse := Some (- 5)\<rparr>"

text \<open>The new customer's form with the field of the amount given left empty.\<close>

definition emptyCashForm :: TransactionForm where
  "emptyCashForm = newCustomerForm\<lparr>cashGiven := None\<rparr>"

text \<open>The same form with \<^verbatim>\<open>0\<close> typed as the amount given.\<close>

definition zeroCashForm :: TransactionForm where
  "zeroCashForm = newCustomerForm\<lparr>cashGiven := Some 0\<rparr>"

text \<open>Asha's redemption form with a bill of 3: the discount is 3 * (10 / 100).\<close>

definition smallBillForm :: TransactionForm where
  "smallBillForm = redeemForm\<lparr>billAmount := Some 3, cashGiven := Some 3, pointsToUse := None\<rparr>"

text \<open>Asha's redemption form with a bill of 13, no points requested and 11.70 handed over.\<close>

definition tenthsForm :: TransactionForm where
  "tenthsForm =
     redeemForm\<lparr>billAmount := Some 13, cashGiven := Some (117 / 10), pointsToUse := None\<rparr>"

text \<open>A bill of 0.20 for which 1.20 is handed over.\<close>

definition pennyForm :: TransactionForm where
  "pennyForm = newCustomerForm\<lparr>billAmount := Some (1 / 5), cashGiven := Some (6 / 5)\<rparr>"

text \<open>
  A customer stored under the bare mobile number, without the country code, found by
  the second alternative of the lookup; she buys for 500 and hands over 500.
\<close>

definition lata :: Customer where
  "lata =
     \<lparr>mobile = ''9876501234'', name = ''Lata'', pin = ''7777'',
      points = 40, totalSpent = 800,
      history =
        [\<lparr>date = 0, bill = 800, tx_discountPercentage = None, tx_finalBill = 800,
          tx_pointsUsed = Some 0, tx_points = 40\<rparr>]\<rparr>"

definition bareKeyForm :: TransactionForm where
  "bareKeyForm =
     initialForm\<lparr>customers := [asha, lata], mobileField := ''9876501234'',
                 nameField := ''Lata'', pinField := ''7777'',
                 billAmount := Some 500, cashGiven := Some 500,
                 currentCustomer := Some lata,
                 eligibility := \<lparr>eligible = True, daysSinceLastTxn = Some 20,
                                 deadline = Some 365, pointsTier = Some Bronze\<rparr>\<rparr>"

text \<open>
  Two purchases through the form alone: a new customer buys for 19.99, and the record
  that this creates buys for 5.01 a day later, each time paying the exact amount.
\<close>

definition firstCentsForm :: TransactionForm where
  "firstCentsForm =
     initialForm\<lparr>mobileField := ''9555500000'', nameField := ''Nila'', pinField := ''2222'',
                 billAmount := Some (1999 / 100), cashGiven := Some (1999 / 100),
                 isNewCustomer := True\<rparr>"

definition nila :: Customer where
  "nila =
     \<lparr>mobile = ''+919555500000'', name = ''Nila'', pin = ''2222'',
      points = 0, totalSpent = fl (1999 / 100),
      history =
        [\<lparr>date = 5, bill = fl (1999 / 100), tx_discountPercentage = None,
          tx_finalBill = fl (1999 / 100), tx_pointsUsed = Some 0, tx_points = 0\<rparr>]\<rparr>"

definition secondCentsForm :: TransactionForm where
  "secondCentsForm =
     initialForm\<lparr>customers := [nila], mobileField := ''9555500000'', nameField := ''Nila'',
                 pinField := ''2222'',
                 billAmount := Some (501 / 100), cashGiven := Some (501 / 100),
                 currentCustomer := Some nila,
                 eligibility := \<lparr>eligible = True, daysSinceLastTxn = Some 1,
                                 deadline = Some 365, pointsTier = Some Bronze\<rparr>\<rparr>"

definition nilaAfter :: Customer where
  "nilaAfter =
     nila\<lparr>points := 0, totalSpent := 25,
          history := history nila @
            [\<lparr>date = 6, bill = fl (501 / 100), tx_discountPercentage = None,
              tx_finalBill = fl (501 / 100), tx_pointsUsed = Some 0, tx_points = 0\<rparr>]\<rparr>"

section \<open>Theorems\<close>

subsection \<open>Rounding\<close>

lemma binade_bounds:
  "0 < x \<Longrightarrow> 2 powi binade x \<le> x \<and> x < 2 powi (binade x + 1)"
proof (induction x rule: binade.induct)
  case (1 x)
  show ?case
  proof (cases "2 \<le> x")
    case True
    then have b: "binade x = binade (x / 2) + 1"
      using "1.prems" by (subst binade.simps) simp
    have "2 powi binade (x / 2) \<le> x / 2 \<and> x / 2 < 2 powi (binade (x / 2) + 1)"
      using "1.IH"(1) True "1.prems" by simp
    then show ?thesis
      unfolding b by (simp add: power_int_add)
  next
    case False
    show ?thesis
    proof (cases "x < 1")
      case True
      then have b: "binade x = binade (2 * x) - 1"
        using "1.prems" False by (subst binade.simps) simp
      have "2 powi binade (2 * x) \<le> 2 * x \<and> 2 * x < 2 powi (binade (2 * x) + 1)"
        using "1.IH"(2) True False "1.prems" by simp
      then show ?thesis
        unfolding b by (simp add: power_int_add power_int_diff)
    next
      case nlt: False
      then have "binade x = 0"
        using "1.prems" False by (subst binade.simps) simp
      then show ?thesis
        using False nlt by simp
    qed
  qed
qed

lemma binade_unique:
  assumes "0 < x" and "2 powi e \<le> x" and "x < 2 powi (e + 1)"
  shows "binade x = e"
proof -
  have b: "2 powi binade x \<le> x" "x < 2 powi (binade x + 1)"
    using binade_bounds [OF assms(1)] by simp_all
  have 1: "binade x < e + 1"
  proof (rule ccontr)
    assume "\<not> binade x < e + 1"
    then have "(2::real) powi (e + 1) \<le> 2 powi binade x"
      by (intro power_int_increasing) simp_all
    then show False using b(1) assms(3) by linarith
  qed
  have 2: "e < binade x + 1"
  proof (rule ccontr)
    assume "\<not> e < binade x + 1"
    then have "(2::real) powi (binade x + 1) \<le> 2 powi e"
      by (intro power_int_increasing) simp_all
    then show False using b(2) assms(2) by linarith
  qed
  show ?thesis using 1 2 by linarith
qed

lemma roundHalfEven_of_int [simp]: "roundHalfEven (real_of_int m) = m"
  by (simp add: roundHalfEven_def)

lemma roundHalfEven_lower: "real_of_int a \<le> y \<Longrightarrow> a \<le> roundHalfEven y"
proof -
  assume "real_of_int a \<le> y"
  then have "a \<le> \<lfloor>y\<rfloor>" by (simp add: le_floor_iff)
  then show ?thesis by (auto simp: roundHalfEven_def Let_def)
qed

lemma roundHalfEven_upper: "y \<le> real_of_int b \<Longrightarrow> roundHalfEven y \<le> b"
proof -
  assume a: "y \<le> real_of_int b"
  have f: "\<lfloor>y\<rfloor> \<le> b" using floor_mono [OF a] by simp
  show ?thesis
  proof (cases "\<lfloor>y\<rfloor> = b")
    case True
    then have "y = real_of_int b" using a by linarith
    then show ?thesis by simp
  next
    case False
    then have "\<lfloor>y\<rfloor> + 1 \<le> b" using f by linarith
    then show ?thesis by (auto simp: roundHalfEven_def Let_def)
  qed
qed

text \<open>The significand of a rounded positive number lies between \<open>2 ^ 52\<close> and \<open>2 ^ 53\<close>.\<close>

lemma flPos_mantissa:
  assumes "0 < x"
  shows "2 ^ 52 \<le> roundHalfEven (x / 2 powi (binade x - 52))"
    and "roundHalfEven (x / 2 powi (binade x - 52)) \<le> 2 ^ 53"
proof -
  have b: "2 powi binade x \<le> x" "x < 2 powi (binade x + 1)"
    using binade_bounds [OF assms] by simp_all
  have p: "(2::real) powi (binade x - 52) > 0" by simp
  have e1: "(2::real) powi binade x = 2 ^ 52 * 2 powi (binade x - 52)"
    by (simp add: power_int_diff)
  have e2: "(2::real) powi (binade x + 1) = 2 ^ 53 * 2 powi (binade x - 52)"
    by (simp add: power_int_diff power_int_add)
  have "2 ^ 52 \<le> x / 2 powi (binade x - 52)"
    using b(1) p unfolding e1 by (simp add: pos_le_divide_eq)
  then have "real_of_int (2 ^ 52) \<le> x / 2 powi (binade x - 52)" by simp
  then show "2 ^ 52 \<le> roundHalfEven (x / 2 powi (binade x - 52))"
    by (rule roundHalfEven_lower)
  have "x / 2 powi (binade x - 52) \<le> 2 ^ 53"
    using b(2) p unfolding e2 by (simp add: pos_divide_le_eq)
  then have "x / 2 powi (binade x - 52) \<le> real_of_int (2 ^ 53)" by simp
  then show "roundHalfEven (x / 2 powi (binade x - 52)) \<le> 2 ^ 53"
    by (rule roundHalfEven_upper)
qed

lemma flPos_pos: "0 < x \<Longrightarrow> 0 < flPos x"
  using flPos_mantissa(1) [of x] by (simp add: flPos_def Let_def zero_less_mult_iff)

text \<open>A rounded number is a double: rounding it again changes nothing.\<close>

lemma flPos_idem:
  assumes "0 < x"
  shows "flPos (flPos x) = flPos x"
proof -
  define e where "e = binade x"
  define m where "m = roundHalfEven (x / 2 powi (e - 52))"
  have m: "2 ^ 52 \<le> m" "m \<le> 2 ^ 53"
    using flPos_mantissa [OF assms] by (simp_all add: m_def e_def)
  have v: "flPos x = real_of_int m * 2 powi (e - 52)"
    by (simp add: flPos_def Let_def m_def e_def)
  have pos: "0 < flPos x" by (rule flPos_pos [OF assms])
  show ?thesis
  proof (cases "m = 2 ^ 53")
    case True
    then have w: "flPos x = 2 powi (e + 1)"
      by (simp add: v power_int_diff power_int_add)
    have be: "binade (flPos x) = e + 1"
      by (rule binade_unique [OF pos]) (simp_all add: w power_int_add)
    have "flPos x / 2 powi (e + 1 - 52) = real_of_int (2 ^ 52)"
      by (simp add: w power_int_diff power_int_add)
    then have "flPos (flPos x) = real_of_int (2 ^ 52) * 2 powi (e + 1 - 52)"
      unfolding flPos_def [of "flPos x"] Let_def be by (simp del: of_int_power of_int_numeral)
    then show ?thesis
      by (simp add: w power_int_diff power_int_add)
  next
    case False
    then have lt: "m < 2 ^ 53" using m(2) by linarith
    have p: "(2::real) powi (e - 52) > 0" by simp
    have lo: "2 powi e \<le> flPos x"
    proof -
      have "(2::real) powi e = 2 ^ 52 * 2 powi (e - 52)"
        by (simp add: power_int_diff)
      also have "\<dots> \<le> real_of_int m * 2 powi (e - 52)"
        using m(1) p by (intro mult_right_mono) simp_all
      finally show ?thesis by (simp add: v)
    qed
    have hi: "flPos x < 2 powi (e + 1)"
    proof -
      have "real_of_int m * 2 powi (e - 52) < 2 ^ 53 * 2 powi (e - 52)"
        using lt p by (intro mult_strict_right_mono) simp_all
      also have "\<dots> = 2 powi (e + 1)"
        by (simp add: power_int_diff power_int_add)
      finally show ?thesis by (simp add: v)
    qed
    have be: "binade (flPos x) = e"
      by (rule binade_unique [OF pos lo hi])
    have "flPos x / 2 powi (e - 52) = real_of_int m"
      by (simp add: v)
    then have "flPos (flPos x) = real_of_int m * 2 powi (e - 52)"
      unfolding flPos_def [of "flPos x"] Let_def be by simp
    then show ?thesis by (simp add: v)
  qed
qed

lemma fl_zero [simp]: "fl 0 = 0"
  by (simp add: fl_def)

lemma fl_of_pos: "0 < y \<Longrightarrow> fl y = flPos y"
  by (simp add: fl_def)

lemma fl_of_neg: "y < 0 \<Longrightarrow> fl y = - flPos (- y)"
  by (simp add: fl_def)




lemma fl_idem [simp]: "fl (fl x) = fl x"
proof -
  consider "x = 0" | "0 < x" | "x < 0" by linarith
  then show ?thesis
  proof cases
    case 1
    then show ?thesis by simp
  next
    case 2
    have "fl (fl x) = flPos (flPos x)"
      using flPos_pos [OF 2] by (simp add: fl_of_pos 2)
    then show ?thesis
      by (simp add: flPos_idem [OF 2] fl_of_pos 2)
  next
    case 3
    then have n: "0 < - x" by simp
    have p: "- flPos (- x) < 0" using flPos_pos [OF n] by simp
    have "fl (fl x) = - flPos (flPos (- x))"
      using fl_of_neg [OF p] by (simp add: fl_of_neg 3)
    then show ?thesis
      by (simp add: flPos_idem [OF n] fl_of_neg 3)
  qed
qed

lemma jsSub_zero [simp]: "jsSub (fl x) 0 = fl x"
  by (simp add: jsSub_def)

lemma jsAdd_zero [simp]: "jsAdd 0 (fl x) = fl x"
  by (simp add: jsAdd_def)

lemma fl_orZero_parseFloat [simp]: "fl (orZero (parseFloat v)) = orZero (parseFloat v)"
  by (cases v) (simp_all add: orZero_def parseFloat_def)


subsection \<open>Evaluation of the examples\<close>

lemmas customer_defs = asha_def ravi_def kiran_def lata_def nila_def nilaAfter_def

lemmas settings_defs =
  DEFAULT_TIER_SETTINGS_def DEFAULT_DISCOUNT_SETTINGS_def DEFAULT_DEADLINE_SETTINGS_def

lemmas example_defs =
  initialForm_def redeemForm_def plainForm_def newCustomerForm_def lapsedForm_def
  importedForm_def negativeRequestForm_def emptyCashForm_def zeroCashForm_def smallBillForm_def
  tenthsForm_def pennyForm_def bareKeyForm_def firstCentsForm_def secondCentsForm_def
  customer_defs settings_defs noEligibilityData_def

lemmas js_eval =
  jsAdd_def jsSub_def jsMul_def jsDiv_def parseFloat_def jsSum_def
  fl_def flPos_def binade.simps roundHalfEven_def Let_def

lemma billDetails_fields [simp]:
  "subtotal (billDetails st) = bd_subtotal st"
  "discountPercentage (billDetails st) = bd_discountPercentage st"
  "discountAmount (billDetails st) = bd_discountAmount st"
  "finalBill (billDetails st) = bd_finalBill st"
  "pointsUsed (billDetails st) = bd_pointsUsed st"
  "cashPayable (billDetails st) = bd_cashPayable st"
  "pointsEarned (billDetails st) = bd_pointsEarned st"
  by (simp_all add: billDetails_def)

text \<open>
  The doubles nearest to some decimal amounts: 0.2, 1.2, 5.01, 11.7 and 19.99 are not
  doubles themselves.
\<close>

lemma fl_decimals:
  "fl (1 / 5) = 3602879701896397 / 2 ^ 54" "fl (6 / 5) = 5404319552844595 / 2 ^ 52"
  "fl (501 / 100) = 2820379266640773 / 2 ^ 49" "fl (117 / 10) = 3293257227514675 / 2 ^ 48"
  "fl (1999 / 100) = 5626684784446013 / 2 ^ 48"
  by (simp_all add: js_eval)

text \<open>
  Two roundings at work: 7 * (5 / 100) is the double above the one of 7 * 5 / 100, and
  the tie between \<open>2 ^ 53 - 1\<close> and \<open>2 ^ 53\<close> goes to the even significand.
\<close>

lemma rounding_examples:
  "jsMul 7 (jsDiv 5 100) = 6305039478318695 / 2 ^ 54"
  "jsDiv (jsMul 7 5) 100 = 6305039478318694 / 2 ^ 54"
  "jsSub (2 ^ 53) (1 / 2) = 2 ^ 53"
  by (simp_all add: js_eval)

lemma fields_redeemForm:
  "customers redeemForm = [asha]" "currentCustomer redeemForm = Some asha"
  "isNewCustomer redeemForm = False" "usePointsAndDiscount redeemForm = True"
  "billAmount redeemForm = Some 1000" "cashGiven redeemForm = Some 900"
  "pointsToUse redeemForm = Some 50" "eligible (eligibility redeemForm) = True"
  "daysSinceLastTxn (eligibility redeemForm) = Some 10" "deadline (eligibility redeemForm) = Some 180"
  "tierSettings redeemForm = DEFAULT_TIER_SETTINGS" "discountSettings redeemForm = DEFAULT_DISCOUNT_SETTINGS"
  "deadlineSettings redeemForm = DEFAULT_DEADLINE_SETTINGS" "countryCode redeemForm = ''+91''"
  "mobileField redeemForm = ''9876543210''" "nameField redeemForm = ''Asha''"
  "pinField redeemForm = ''1234''" "currentUser redeemForm = None"
  by (simp_all add: example_defs)

lemma bill_redeemForm:
  shows "bd_subtotal redeemForm = 1000" and "bd_discountPercentage redeemForm = 10"
    and "bd_discountAmount redeemForm = 100" and "bd_finalBill redeemForm = 900"
    and "bd_pointsUsed redeemForm = 50" and "bd_cashPayable redeemForm = 850"
    and "bd_pointsEarned redeemForm = 50"
proof -
  note f = fields_redeemForm
  show s: "bd_subtotal redeemForm = 1000"
    by (simp add: bd_subtotal_def orZero_def f js_eval)
  have g: "discountApplies redeemForm = True"
    by (simp add: discountApplies_def tierInfo_def f s)
  show p: "bd_discountPercentage redeemForm = 10"
    by (simp add: bd_discountPercentage_def g tierInfo_def f getCustomerTier_def customer_defs settings_defs)
  show a: "bd_discountAmount redeemForm = 100"
    by (simp add: bd_discountAmount_def g s p js_eval)
  show t: "bd_finalBill redeemForm = 900"
    by (simp add: bd_finalBill_def s a js_eval)
  show u: "bd_pointsUsed redeemForm = 50"
    by (simp add: bd_pointsUsed_def f t orZero_def customer_defs js_eval)
  show c: "bd_cashPayable redeemForm = 850"
    by (simp add: bd_cashPayable_def t u js_eval)
  show "bd_pointsEarned redeemForm = 50"
    by (simp add: bd_pointsEarned_def c f orZero_def js_eval)
qed

lemma fields_plainForm:
  "customers plainForm = [asha]" "currentCustomer plainForm = Some asha"
  "isNewCustomer plainForm = False" "usePointsAndDiscount plainForm = False"
  "billAmount plainForm = Some 1000" "cashGiven plainForm = Some 1000"
  "pointsToUse plainForm = None" "eligible (eligibility plainForm) = True"
  "daysSinceLastTxn (eligibility plainForm) = Some 10" "deadline (eligibility plainForm) = Some 180"
  "tierSettings plainForm = DEFAULT_TIER_SETTINGS" "discountSettings plainForm = DEFAULT_DISCOUNT_SETTINGS"
  "deadlineSettings plainForm = DEFAULT_DEADLINE_SETTINGS" "countryCode plainForm = ''+91''"
  "mobileField plainForm = ''9876543210''" "nameField plainForm = ''Asha''"
  "pinField plainForm = ''1234''" "currentUser plainForm = None"
  by (simp_all add: example_defs)

lemma bill_plainForm:
  shows "bd_subtotal plainForm = 1000" and "bd_discountPercentage plainForm = 0"
    and "bd_discountAmount plainForm = 0" and "bd_finalBill plainForm = 1000"
    and "bd_pointsUsed plainForm = 0" and "bd_cashPayable plainForm = 1000"
    and "bd_pointsEarned plainForm = 0"
proof -
  note f = fields_plainForm
  show s: "bd_subtotal plainForm = 1000"
    by (simp add: bd_subtotal_def orZero_def f js_eval)
  have g: "discountApplies plainForm = False"
    by (simp add: discountApplies_def tierInfo_def f s)
  show p: "bd_discountPercentage plainForm = 0"
    by (simp add: bd_discountPercentage_def g tierInfo_def f getCustomerTier_def customer_defs settings_defs)
  show a: "bd_discountAmount plainForm = 0"
    by (simp add: bd_discountAmount_def g s p js_eval)
  show t: "bd_finalBill plainForm = 1000"
    by (simp add: bd_finalBill_def s a js_eval)
  show u: "bd_pointsUsed plainForm = 0"
    by (simp add: bd_pointsUsed_def f t orZero_def customer_defs js_eval)
  show c: "bd_cashPayable plainForm = 1000"
    by (simp add: bd_cashPayable_def t u js_eval)
  show "bd_pointsEarned plainForm = 0"
    by (simp add: bd_pointsEarned_def c f orZero_def js_eval)
qed



lemma fields_lapsedForm:
  "customers lapsedForm = [asha, ravi]" "currentCustomer lapsedForm = Some ravi"
  "isNewCustomer lapsedForm = False" "usePointsAndDiscount lapsedForm = True"
  "billAmount lapsedForm = Some 1000" "cashGiven lapsedForm = Some 950"
  "pointsToUse lapsedForm = Some 50" "eligible (eligibility lapsedForm) = False"
  "daysSinceLastTxn (eligibility lapsedForm) = Some 100" "deadline (eligibility lapsedForm) = Some 90"
  "tierSettings lapsedForm = DEFAULT_TIER_SETTINGS" "discountSettings lapsedForm = DEFAULT_DISCOUNT_SETTINGS"
  "deadlineSettings lapsedForm = DEFAULT_DEADLINE_SETTINGS" "countryCode lapsedForm = ''+91''"
  "mobileField lapsedForm = ''9000000001''" "nameField lapsedForm = ''Ravi''"
  "pinField lapsedForm = ''0000''" "currentUser lapsedForm = None"
  by (simp_all add: example_defs)

lemma bill_lapsedForm:
  shows "bd_subtotal lapsedForm = 1000" and "bd_discountPercentage lapsedForm = 0"
    and "bd_discountAmount lapsedForm = 0" and "bd_finalBill lapsedForm = 1000"
    and "bd_pointsUsed lapsedForm = 50" and "bd_cashPayable lapsedForm = 950"
    and "bd_pointsEarned lapsedForm = 0"
proof -
  note f = fields_lapsedForm
  show s: "bd_subtotal lapsedForm = 1000"
    by (simp add: bd_subtotal_def orZero_def f js_eval)
  have g: "discountApplies lapsedForm = False"
    by (simp add: discountApplies_def tierInfo_def f s)
  show p: "bd_discountPercentage lapsedForm = 0"
    by (simp add: bd_discountPercentage_def g tierInfo_def f getCustomerTier_def customer_defs settings_defs)
  show a: "bd_discountAmount lapsedForm = 0"
    by (simp add: bd_discountAmount_def g s p js_eval)
  show t: "bd_finalBill lapsedForm = 1000"
    by (simp add: bd_finalBill_def s a js_eval)
  show u: "bd_pointsUsed lapsedForm = 50"
    by (simp add: bd_pointsUsed_def f t orZero_def customer_defs js_eval)
  show c: "bd_cashPayable lapsedForm = 950"
    by (simp add: bd_cashPayable_def t u js_eval)
  show "bd_pointsEarned lapsedForm = 0"
    by (simp add: bd_pointsEarned_def c f orZero_def js_eval)
qed



lemma fields_negativeRequestForm:
  "customers negativeRequestForm = [asha]" "currentCustomer negativeRequestForm = Some asha"
  "isNewCustomer negativeRequestForm = False" "usePointsAndDiscount negativeRequestForm = False"
  "billAmount negativeRequestForm = Some 1000" "cashGiven negativeRequestForm = Some 1000"
  "pointsToUse negativeRequestForm = Some (- 5)" "eligible (eligibility negativeRequestForm) = True"
  "daysSinceLastTxn (eligibility negativeRequestForm) = Some 10" "deadline (eligibility negativeRequestForm) = Some 180"
  "tierSettings negativeRequestForm = DEFAULT_TIER_SETTINGS" "discountSettings negativeRequestForm = DEFAULT_DISCOUNT_SETTINGS"
  "deadlineSettings negativeRequestForm = DEFAULT_DEADLINE_SETTINGS" "countryCode negativeRequestForm = ''+91''"
  "mobileField negativeRequestForm = ''9876543210''" "nameField negativeRequestForm = ''Asha''"
  "pinField negativeRequestForm = ''1234''" "currentUser negativeRequestForm = None"
  by (simp_all add: example_defs)

lemma bill_negativeRequestForm:
  shows "bd_subtotal negativeRequestForm = 1000" and "bd_discountPercentage negativeRequestForm = 0"
    and "bd_discountAmount negativeRequestForm = 0" and "bd_finalBill negativeRequestForm = 1000"
    and "bd_pointsUsed negativeRequestForm = 0" and "bd_cashPayable negativeRequestForm = 1000"
    and "bd_pointsEarned negativeRequestForm = 0"
proof -
  note f = fields_negativeRequestForm
  show s: "bd_subtotal negativeRequestForm = 1000"
    by (simp add: bd_subtotal_def orZero_def f js_eval)
  have g: "discountApplies negativeRequestForm = False"
    by (simp add: discountApplies_def tierInfo_def f s)
  show p: "bd_discountPercentage negativeRequestForm = 0"
    by (simp add: bd_discountPercentage_def g tierInfo_def f getCustomerTier_def customer_defs settings_defs)
  show a: "bd_discountAmount negativeRequestForm = 0"
    by (simp add: bd_discountAmount_def g s p js_eval)
  show t: "bd_finalBill negativeRequestForm = 1000"
    by (simp add: bd_finalBill_def s a js_eval)
  show u: "bd_pointsUsed negativeRequestForm = 0"
    by (simp add: bd_pointsUsed_def f t orZero_def customer_defs js_eval)
  show c: "bd_cashPayable negativeRequestForm = 1000"
    by (simp add: bd_cashPayable_def t u js_eval)
  show "bd_pointsEarned negativeRequestForm = 0"
    by (simp add: bd_pointsEarned_def c f orZero_def js_eval)
qed

lemma fields_emptyCashForm:
  "customers emptyCashForm = []" "currentCustomer emptyCashForm = None"
  "isNewCustomer emptyCashForm = True" "usePointsAndDiscount emptyCashForm = False"
  "billAmount emptyCashForm = Some 1000" "cashGiven emptyCashForm = None"
  "pointsToUse emptyCashForm = None" "eligible (eligibility emptyCashForm) = True"
  "daysSinceLastTxn (eligibility emptyCashForm) = None" "deadline (eligibility emptyCashForm) = None"
  "tierSettings emptyCashForm = DEFAULT_TIER_SETTINGS" "discountSettings emptyCashForm = DEFAULT_DISCOUNT_SETTINGS"
  "deadlineSettings emptyCashForm = DEFAULT_DEADLINE_SETTINGS" "countryCode emptyCashForm = ''+91''"
  "mobileField emptyCashForm = ''9123456780''" "nameField emptyCashForm = ''Meera''"
  "pinField emptyCashForm = ''4321''" "currentUser emptyCashForm = None"
  by (simp_all add: example_defs)

lemma bill_emptyCashForm:
  shows "bd_subtotal emptyCashForm = 1000" and "bd_discountPercentage emptyCashForm = 0"
    and "bd_discountAmount emptyCashForm = 0" and "bd_finalBill emptyCashForm = 1000"
    and "bd_pointsUsed emptyCashForm = 0" and "bd_cashPayable emptyCashForm = 1000"
    and "bd_pointsEarned emptyCashForm = 0"
proof -
  note f = fields_emptyCashForm
  show s: "bd_subtotal emptyCashForm = 1000"
    by (simp add: bd_subtotal_def orZero_def f js_eval)
  have g: "discountApplies emptyCashForm = False"
    by (simp add: discountApplies_def tierInfo_def f s)
  show p: "bd_discountPercentage emptyCashForm = 0"
    by (simp add: bd_discountPercentage_def g tierInfo_def f getCustomerTier_def customer_defs settings_defs)
  show a: "bd_discountAmount emptyCashForm = 0"
    by (simp add: bd_discountAmount_def g s p js_eval)
  show t: "bd_finalBill emptyCashForm = 1000"
    by (simp add: bd_finalBill_def s a js_eval)
  show u: "bd_pointsUsed emptyCashForm = 0"
    by (simp add: bd_pointsUsed_def f t orZero_def customer_defs js_eval)
  show c: "bd_cashPayable emptyCashForm = 1000"
    by (simp add: bd_cashPayable_def t u js_eval)
  show "bd_pointsEarned emptyCashForm = 0"
    by (simp add: bd_pointsEarned_def c f orZero_def js_eval)
qed

lemma fields_zeroCashForm:
  "customers zeroCashForm = []" "currentCustomer zeroCashForm = None"
  "isNewCustomer zeroCashForm = True" "usePointsAndDiscount zeroCashForm = False"
  "billAmount zeroCashForm = Some 1000" "cashGiven zeroCashForm = Some 0"
  "pointsToUse zeroCashForm = None" "eligible (eligibility zeroCashForm) = True"
  "daysSinceLastTxn (eligibility zeroCashForm) = None" "deadline (eligibility zeroCashForm) = None"
  "tierSettings zeroCashForm = DEFAULT_TIER_SETTINGS" "discountSettings zeroCashForm = DEFAULT_DISCOUNT_SETTINGS"
  "deadlineSettings zeroCashForm = DEFAULT_DEADLINE_SETTINGS" "countryCode zeroCashForm = ''+91''"
  "mobileField zeroCashForm = ''9123456780''" "nameField zeroCashForm = ''Meera''"
  "pinField zeroCashForm = ''4321''" "currentUser zeroCashForm = None"
  by (simp_all add: example_defs)

lemma bill_zeroCashForm:
  shows "bd_subtotal zeroCashForm = 1000" and "bd_discountPercentage zeroCashForm = 0"
    and "bd_discountAmount zeroCashForm = 0" and "bd_finalBill zeroCashForm = 1000"
    and "bd_pointsUsed zeroCashForm = 0" and "bd_cashPayable zeroCashForm = 1000"
    and "bd_pointsEarned zeroCashForm = 0"
proof -
  note f = fields_zeroCashForm
  show s: "bd_subtotal zeroCashForm = 1000"
    by (simp add: bd_subtotal_def orZero_def f js_eval)
  have g: "discountApplies zeroCashForm = False"
    by (simp add: discountApplies_def tierInfo_def f s)
  show p: "bd_discountPercentage zeroCashForm = 0"
    by (simp add: bd_discountPercentage_def g tierInfo_def f getCustomerTier_def customer_defs settings_defs)
  show a: "bd_discountAmount zeroCashForm = 0"
    by (simp add: bd_discountAmount_def g s p js_eval)
  show t: "bd_finalBill zeroCashForm = 1000"
    by (simp add: bd_finalBill_def s a js_eval)
  show u: "bd_pointsUsed zeroCashForm = 0"
    by (simp add: bd_pointsUsed_def f t orZero_def customer_defs js_eval)
  show c: "bd_cashPayable zeroCashForm = 1000"
    by (simp add: bd_cashPayable_def t u js_eval)
  show "bd_pointsEarned zeroCashForm = 0"
    by (simp add: bd_pointsEarned_def c f orZero_def js_eval)
qed

lemma fields_smallBillForm:
  "customers smallBillForm = [asha]" "currentCustomer smallBillForm = Some asha"
  "isNewCustomer smallBillForm = False" "usePointsAndDiscount smallBillForm = True"
  "billAmount smallBillForm = Some 3" "cashGiven smallBillForm = Some 3"
  "pointsToUse smallBillForm = None" "eligible (eligibility smallBillForm) = True"
  "daysSinceLastTxn (eligibility smallBillForm) = Some 10" "deadline (eligibility smallBillForm) = Some 180"
  "tierSettings smallBillForm = DEFAULT_TIER_SETTINGS" "discountSettings smallBillForm = DEFAULT_DISCOUNT_SETTINGS"
  "deadlineSettings smallBillForm = DEFAULT_DEADLINE_SETTINGS" "countryCode smallBillForm = ''+91''"
  "mobileField smallBillForm = ''9876543210''" "nameField smallBillForm = ''Asha''"
  "pinField smallBillForm = ''1234''" "currentUser smallBillForm = None"
  by (simp_all add: example_defs)

lemma bill_smallBillForm:
  shows "bd_subtotal smallBillForm = 3" and "bd_discountPercentage smallBillForm = 10"
    and "bd_discountAmount smallBillForm = 1351079888211149 / 2 ^ 52" and "bd_finalBill smallBillForm = 3039929748475085 / 2 ^ 50"
    and "bd_pointsUsed smallBillForm = 0" and "bd_cashPayable smallBillForm = 3039929748475085 / 2 ^ 50"
    and "bd_pointsEarned smallBillForm = 0"
proof -
  note f = fields_smallBillForm
  show s: "bd_subtotal smallBillForm = 3"
    by (simp add: bd_subtotal_def orZero_def f js_eval)
  have g: "discountApplies smallBillForm = True"
    by (simp add: discountApplies_def tierInfo_def f s)
  show p: "bd_discountPercentage smallBillForm = 10"
    by (simp add: bd_discountPercentage_def g tierInfo_def f getCustomerTier_def customer_defs settings_defs)
  show a: "bd_discountAmount smallBillForm = 1351079888211149 / 2 ^ 52"
    by (simp add: bd_discountAmount_def g s p js_eval)
  show t: "bd_finalBill smallBillForm = 3039929748475085 / 2 ^ 50"
    by (simp add: bd_finalBill_def s a js_eval)
  show u: "bd_pointsUsed smallBillForm = 0"
    by (simp add: bd_pointsUsed_def f t orZero_def customer_defs js_eval)
  show c: "bd_cashPayable smallBillForm = 3039929748475085 / 2 ^ 50"
    by (simp add: bd_cashPayable_def t u js_eval)
  show "bd_pointsEarned smallBillForm = 0"
    by (simp add: bd_pointsEarned_def c f orZero_def js_eval)
qed

lemma fields_tenthsForm:
  "customers tenthsForm = [asha]" "currentCustomer tenthsForm = Some asha"
  "isNewCustomer tenthsForm = False" "usePointsAndDiscount tenthsForm = True"
  "billAmount tenthsForm = Some 13" "cashGiven tenthsForm = Some (117 / 10)"
  "pointsToUse tenthsForm = None" "eligible (eligibility tenthsForm) = True"
  "daysSinceLastTxn (eligibility tenthsForm) = Some 10" "deadline (eligibility tenthsForm) = Some 180"
  "tierSettings tenthsForm = DEFAULT_TIER_SETTINGS" "discountSettings tenthsForm = DEFAULT_DISCOUNT_SETTINGS"
  "deadlineSettings tenthsForm = DEFAULT_DEADLINE_SETTINGS" "countryCode tenthsForm = ''+91''"
  "mobileField tenthsForm = ''9876543210''" "nameField tenthsForm = ''Asha''"
  "pinField tenthsForm = ''1234''" "currentUser tenthsForm = None"
  by (simp_all add: example_defs)

lemma bill_tenthsForm:
  shows "bd_subtotal tenthsForm = 13" and "bd_discountPercentage tenthsForm = 10"
    and "bd_discountAmount tenthsForm = 5854679515581645 / 2 ^ 52" and "bd_finalBill tenthsForm = 3293257227514675 / 2 ^ 48"
    and "bd_pointsUsed tenthsForm = 0" and "bd_cashPayable tenthsForm = 3293257227514675 / 2 ^ 48"
    and "bd_pointsEarned tenthsForm = 0"
proof -
  note f = fields_tenthsForm
  show s: "bd_subtotal tenthsForm = 13"
    by (simp add: bd_subtotal_def orZero_def f js_eval)
  have g: "discountApplies tenthsForm = True"
    by (simp add: discountApplies_def tierInfo_def f s)
  show p: "bd_discountPercentage tenthsForm = 10"
    by (simp add: bd_discountPercentage_def g tierInfo_def f getCustomerTier_def customer_defs settings_defs)
  show a: "bd_discountAmount tenthsForm = 5854679515581645 / 2 ^ 52"
    by (simp add: bd_discountAmount_def g s p js_eval)
  show t: "bd_finalBill tenthsForm = 3293257227514675 / 2 ^ 48"
    by (simp add: bd_finalBill_def s a js_eval)
  show u: "bd_pointsUsed tenthsForm = 0"
    by (simp add: bd_pointsUsed_def f t orZero_def customer_defs js_eval)
  show c: "bd_cashPayable tenthsForm = 3293257227514675 / 2 ^ 48"
    by (simp add: bd_cashPayable_def t u js_eval)
  show "bd_pointsEarned tenthsForm = 0"
    by (simp add: bd_pointsEarned_def c f orZero_def js_eval)
qed









lemmas submit_eval =
  handleTransactionSubmit_def newHistoryEntry_def targetMobile_def transactionDetails_def
  nameOrGuest_def businessNameOf_def updateCustomer_def assignedTotalPoints_def
  getTierByPoints_def customer_defs settings_defs js_eval


lemma submit_redeemForm:
  "handleTransactionSubmit 5 redeemForm =
     Inr ([asha\<lparr>points := 200, totalSpent := 12900,
                 history := history asha @
                   [\<lparr>date = 5, bill = 1000, tx_discountPercentage = Some 10,
                     tx_finalBill = 900, tx_pointsUsed = Some 50, tx_points = 50\<rparr>]\<rparr>],
          \<lparr>ltd_mobile = ''+919876543210'', customerName = ''Asha'',
           ltd_businessName = ''Our Store'', ltd_finalBill = 900, ltd_pointsUsed = 50,
           ltd_pointsEarned = 50, newTotalPoints = 200, deadlineDays = Some 170\<rparr>)"
  by (simp add: submit_eval fields_redeemForm bill_redeemForm)

lemma submit_lapsedForm:
  "handleTransactionSubmit 5 lapsedForm =
     Inr ([asha,
           ravi\<lparr>points := 550, totalSpent := 2500,
                 history := history ravi @
                   [\<lparr>date = 5, bill = 1000, tx_discountPercentage = None,
                     tx_finalBill = 1000, tx_pointsUsed = Some 0, tx_points = 0\<rparr>]\<rparr>],
          \<lparr>ltd_mobile = ''+919000000001'', customerName = ''Ravi'',
           ltd_businessName = ''Our Store'', ltd_finalBill = 1000, ltd_pointsUsed = 50,
           ltd_pointsEarned = 0, newTotalPoints = 550, deadlineDays = Some 0\<rparr>)"
  by (simp add: submit_eval fields_lapsedForm bill_lapsedForm)





subsection \<open>Tier classification\<close>

text \<open>
  Claim C8. For every customer and every tier settings value, with no assumption that
  the thresholds increase from Bronze to Platinum, the effective tier is at least the
  spend tier and at least the points tier in the order Bronze < Silver < Gold < Platinum,
  and it is the maximum of the two.
\<close>

theorem getCustomerTier_is_max:
  "tier_rank (getTierBySpend c s) \<le> tier_rank (getCustomerTier c s)
   \<and> tier_rank (getTierByPoints c s) \<le> tier_rank (getCustomerTier c s)
   \<and> tier_rank (getCustomerTier c s)
       = max (tier_rank (getTierBySpend c s)) (tier_rank (getTierByPoints c s))"
  by (simp add: getTierBySpend_def getTierByPoints_def getCustomerTier_def)

subsection \<open>Discount eligibility\<close>

text \<open>The reduction over the history returns an entry of the latest date.\<close>

lemma date_foldl_laterOf: "date (foldl laterOf x xs) = fold max (map date xs) (date x)"
  by (induction xs arbitrary: x) (simp_all add: laterOf_def max_def)

lemma date_lastTransaction:
  "date (lastTransaction x xs) = Max (date ` set (x # xs))"
proof -
  have "Max (set (map date (x # xs))) = fold max (map date xs) (date x)"
    using Max.set_eq_fold [of "date x" "map date xs"] by simp
  then show ?thesis
    by (simp add: lastTransaction_def date_foldl_laterOf)
qed

lemma lastTransaction_mem: "lastTransaction x xs \<in> set (x # xs)"
  unfolding lastTransaction_def
  by (induction xs arbitrary: x) (auto simp: laterOf_def)

text \<open>
  Claim C5. With an empty history the result is eligible with the three other fields
  null. Otherwise the days since the last transaction are the floor of the time between
  the maximum timestamp of the history and now, divided by the milliseconds of a day;
  the points tier is that of \<open>getTierByPoints\<close>; the deadline is the deadline setting
  of that tier; and the customer is eligible exactly when the days do not exceed the
  deadline.
\<close>

theorem checkDiscountEligibility_spec:
  "(history c = [] \<longrightarrow>
      checkDiscountEligibility today c dls ts =
        \<lparr>eligible = True, daysSinceLastTxn = None, deadline = None, pointsTier = None\<rparr>)
   \<and> (history c \<noteq> [] \<longrightarrow>
      (let days = \<lfloor>real_of_int (today - Max (date ` set (history c))) / 86400000\<rfloor>;
           pt = getTierByPoints c ts;
           dl = tierEntry dls pt
       in checkDiscountEligibility today c dls ts =
            \<lparr>eligible = (real_of_int days \<le> dl), daysSinceLastTxn = Some days,
             deadline = Some dl, pointsTier = Some pt\<rparr>))"
proof (cases "history c")
  case Nil
  then show ?thesis by (simp add: checkDiscountEligibility_def noEligibilityData_def)
next
  case (Cons x xs)
  have fd: "\<lfloor>real_of_int a / 86400000\<rfloor> = a div 86400000" for a :: int
    using floor_divide_of_int_eq [of a 86400000, where ?'a = real] by simp
  show ?thesis
    using Cons date_lastTransaction [of x xs]
    by (simp add: checkDiscountEligibility_def Let_def msPerDay_def fd del: of_int_diff)
qed

text \<open>
  Asha on day 13, ten whole days after her last purchase, and Kiran, who has no history.
\<close>

theorem checkDiscountEligibility_spec_witness:
  "history asha \<noteq> [] \<and> Max (date ` set (history asha)) = 3 * 86400000
   \<and> checkDiscountEligibility (13 * 86400000 + 500) asha
        DEFAULT_DEADLINE_SETTINGS DEFAULT_TIER_SETTINGS
      = \<lparr>eligible = True, daysSinceLastTxn = Some 10, deadline = Some 180,
         pointsTier = Some Silver\<rparr>
   \<and> history kiran = []
   \<and> checkDiscountEligibility (13 * 86400000 + 500) kiran
        DEFAULT_DEADLINE_SETTINGS DEFAULT_TIER_SETTINGS
      = \<lparr>eligible = True, daysSinceLastTxn = None, deadline = None, pointsTier = None\<rparr>"
proof -
  have 1: "history kiran = []" "history asha \<noteq> []"
    "Max (date ` set (history asha)) = 3 * 86400000"
    "getTierByPoints asha DEFAULT_TIER_SETTINGS = Silver"
    by (simp_all add: kiran_def asha_def getTierByPoints_def DEFAULT_TIER_SETTINGS_def)
  show ?thesis
    using checkDiscountEligibility_spec
            [of asha "13 * 86400000 + 500" DEFAULT_DEADLINE_SETTINGS DEFAULT_TIER_SETTINGS]
          checkDiscountEligibility_spec
            [of kiran "13 * 86400000 + 500" DEFAULT_DEADLINE_SETTINGS DEFAULT_TIER_SETTINGS]
          1
    by (simp add: Let_def DEFAULT_DEADLINE_SETTINGS_def)
qed

subsection \<open>The bill\<close>

text \<open>
  Claim C2, amended. The discount percentage and the discount amount are both 0 unless
  the redemption box is ticked, the customer is eligible, a customer is known and the
  subtotal is positive; when all four hold, the percentage is the discount setting of
  the customer's effective tier and the amount is subtotal * (percentage / 100) in
  double arithmetic: the quotient is rounded, then the product. In every case the final
  bill is the subtotal less the discount amount, rounded.
\<close>

theorem billDetails_discount:
  "(\<not> (usePointsAndDiscount st \<and> eligible (eligibility st) \<and> currentCustomer st \<noteq> None
        \<and> 0 < subtotal (billDetails st))
      \<longrightarrow> discountPercentage (billDetails st) = 0 \<and> discountAmount (billDetails st) = 0)
   \<and> (\<forall>c. usePointsAndDiscount st \<and> eligible (eligibility st) \<and> currentCustomer st = Some c
        \<and> 0 < subtotal (billDetails st)
      \<longrightarrow> discountPercentage (billDetails st)
            = tierEntry (discountSettings st) (getCustomerTier c (tierSettings st))
          \<and> discountAmount (billDetails st)
            = jsMul (subtotal (billDetails st)) (jsDiv (discountPercentage (billDetails st)) 100))
   \<and> finalBill (billDetails st)
       = jsSub (subtotal (billDetails st)) (discountAmount (billDetails st))
   \<and> subtotal (billDetails st) = orZero (parseFloat (billAmount st))"
  by (auto simp: bd_discountPercentage_def bd_discountAmount_def bd_finalBill_def
        discountApplies_def tierInfo_def bd_subtotal_def)

text \<open>
  Asha is Gold by spend: 10 percent of 1000 with the box ticked, nothing without it.
\<close>

theorem billDetails_discount_witness:
  "usePointsAndDiscount redeemForm \<and> eligible (eligibility redeemForm)
   \<and> currentCustomer redeemForm = Some asha \<and> 0 < subtotal (billDetails redeemForm)
   \<and> getCustomerTier asha (tierSettings redeemForm) = Gold
   \<and> discountPercentage (billDetails redeemForm) = 10
   \<and> discountAmount (billDetails redeemForm) = jsMul 1000 (jsDiv 10 100)
   \<and> discountAmount (billDetails redeemForm) = 100
   \<and> finalBill (billDetails redeemForm) = 900
   \<and> \<not> usePointsAndDiscount plainForm
   \<and> discountPercentage (billDetails plainForm) = 0
   \<and> discountAmount (billDetails plainForm) = 0
   \<and> finalBill (billDetails plainForm) = 1000"
proof -
  have 1: "getCustomerTier asha DEFAULT_TIER_SETTINGS = Gold"
    by (simp add: getCustomerTier_def asha_def DEFAULT_TIER_SETTINGS_def)
  have 2: "jsMul 1000 (jsDiv 10 100) = 100" "jsSub 1000 100 = 900"
    by (simp_all add: js_eval)
  show ?thesis
    using billDetails_discount [of redeemForm] billDetails_discount [of plainForm] 1 2
    by (simp add: fields_redeemForm fields_plainForm bill_redeemForm bill_plainForm)
qed

text \<open>
  The amount is not subtotal * percentage / 100, neither exactly nor in double
  arithmetic: for a bill of 3 at 10 percent it is the double 0.30000000000000004, while
  3 * 10 / 100 is 0.3 and its double is the one below.
\<close>

theorem billDetails_discount_counterexample:
  "subtotal (billDetails smallBillForm) = 3
   \<and> discountPercentage (billDetails smallBillForm) = 10
   \<and> discountAmount (billDetails smallBillForm) = 1351079888211149 / 2 ^ 52
   \<and> discountAmount (billDetails smallBillForm)
        \<noteq> subtotal (billDetails smallBillForm)
            * discountPercentage (billDetails smallBillForm) / 100
   \<and> discountAmount (billDetails smallBillForm)
        \<noteq> jsDiv (jsMul (subtotal (billDetails smallBillForm))
                        (discountPercentage (billDetails smallBillForm))) 100"
proof -
  have "jsDiv (jsMul 3 10) 100 = 5404319552844595 / 2 ^ 54"
    by (simp add: js_eval)
  then show ?thesis
    by (simp add: bill_smallBillForm)
qed

text \<open>
  Claim C3, amended. When the redemption box is ticked and the customer has positive
  points, the points used are min(customer.points, finalBill, requestedPoints), so they
  exceed none of the three; in every other case the points used are 0. Hence the three
  bounds hold on every input whose customer points, final bill and requested points are
  not negative. The cash payable is always the final bill less the points used, rounded.
\<close>

theorem billDetails_pointsUsed:
  "(\<forall>c. currentCustomer st = Some c \<and> usePointsAndDiscount st \<and> 0 < points c
      \<longrightarrow> pointsUsed (billDetails st)
            = min (min (points c) (finalBill (billDetails st)))
                  (orZero (parseFloat (pointsToUse st)))
          \<and> pointsUsed (billDetails st) \<le> points c
          \<and> pointsUsed (billDetails st) \<le> finalBill (billDetails st)
          \<and> pointsUsed (billDetails st) \<le> orZero (parseFloat (pointsToUse st)))
   \<and> (\<not> (\<exists>c. currentCustomer st = Some c \<and> usePointsAndDiscount st \<and> 0 < points c)
      \<longrightarrow> pointsUsed (billDetails st) = 0)
   \<and> (\<forall>c. currentCustomer st = Some c \<and> 0 \<le> points c \<and> 0 \<le> finalBill (billDetails st)
          \<and> 0 \<le> orZero (parseFloat (pointsToUse st))
      \<longrightarrow> pointsUsed (billDetails st) \<le> points c
          \<and> pointsUsed (billDetails st) \<le> finalBill (billDetails st)
          \<and> pointsUsed (billDetails st) \<le> orZero (parseFloat (pointsToUse st)))
   \<and> cashPayable (billDetails st)
       = jsSub (finalBill (billDetails st)) (pointsUsed (billDetails st))"
  by (auto simp: bd_pointsUsed_def bd_cashPayable_def split: option.splits)

text \<open>
  Asha redeems min(200, 900, 50) = 50 points with the box ticked and none without it.
\<close>

theorem billDetails_pointsUsed_witness:
  "currentCustomer redeemForm = Some asha \<and> usePointsAndDiscount redeemForm
   \<and> 0 < points asha
   \<and> pointsUsed (billDetails redeemForm) = min (min 200 900) 50
   \<and> cashPayable (billDetails redeemForm) = jsSub 900 50
   \<and> cashPayable (billDetails redeemForm) = 850
   \<and> currentCustomer plainForm = Some asha \<and> \<not> usePointsAndDiscount plainForm
   \<and> 0 \<le> finalBill (billDetails plainForm)
   \<and> 0 \<le> orZero (parseFloat (pointsToUse plainForm))
   \<and> pointsUsed (billDetails plainForm) = 0
   \<and> cashPayable (billDetails plainForm) = 1000"
proof -
  have 1: "points asha = 200" "jsSub 900 50 = 850"
    "orZero (parseFloat (Some 50)) = 50" "orZero (parseFloat None) = 0"
    by (simp_all add: asha_def orZero_def js_eval)
  show ?thesis
    using billDetails_pointsUsed [of redeemForm] billDetails_pointsUsed [of plainForm] 1
    by (simp add: fields_redeemForm fields_plainForm bill_redeemForm bill_plainForm)
qed

text \<open>
  The bound by the requested points fails as claimed for every input: with the box not
  ticked and \<^verbatim>\<open>-5\<close> in the points field, the points used are 0, more than requested.
\<close>

theorem billDetails_three_way_min_counterexample:
  "\<not> pointsUsed (billDetails negativeRequestForm)
       \<le> orZero (parseFloat (pointsToUse negativeRequestForm))"
proof -
  have "orZero (parseFloat (Some (- 5))) = - 5"
    by (simp add: orZero_def js_eval)
  then show ?thesis
    by (simp add: bill_negativeRequestForm fields_negativeRequestForm)
qed




subsection \<open>Committing a transaction\<close>


lemma submit_new:
  assumes "handleTransactionSubmit now st = Inr (cs, d)" and "isNewCustomer st"
  shows "cs = customers st @
           [\<lparr>mobile = targetMobile st, name = nameOrGuest (nameField st), pin = pinField st,
             points = bd_pointsEarned st, totalSpent = bd_finalBill st,
             history = [newHistoryEntry now st]\<rparr>]"
    and "d = transactionDetails st (bd_pointsEarned st) (Some (bronze (deadlineSettings st)))"
  using assms
  by (auto simp: handleTransactionSubmit_def Let_def split: if_splits option.splits)

lemma submit_existing:
  assumes "handleTransactionSubmit now st = Inr (cs, d)" and "\<not> isNewCustomer st"
  shows "cs = map (updateCustomer now st) (customers st)"
    and "newTotalPoints d = assignedTotalPoints st"
    and "ltd_pointsUsed d = bd_pointsUsed st"
    and "deadlineDays d =
           (case (deadline (eligibility st), daysSinceLastTxn (eligibility st)) of
              (Some dl, Some n) \<Rightarrow> Some (max 0 (dl - real_of_int n))
            | _ \<Rightarrow>
               (case currentCustomer st of
                  Some c \<Rightarrow>
                    Some (tierEntry (deadlineSettings st)
                            (getTierByPoints (c\<lparr>points := assignedTotalPoints st\<rparr>)
                               (tierSettings st)))
                | None \<Rightarrow> None))"
  using assms
  by (auto simp: handleTransactionSubmit_def Let_def transactionDetails_def
           split: if_splits option.splits)

text \<open>
  With a numeric amount given the handler alerts exactly when the bill is not positive
  or the amount is short; with an empty or non-numeric amount only the bill is checked.
\<close>

lemma submit_numeric_cash:
  "cashGiven st = Some x \<Longrightarrow>
   isl (handleTransactionSubmit now st) = (bd_subtotal st \<le> 0 \<or> fl x < bd_cashPayable st)"
  by (auto simp: handleTransactionSubmit_def Let_def parseFloat_def)

lemma submit_nan_cash:
  "cashGiven st = None \<Longrightarrow> isl (handleTransactionSubmit now st) = (bd_subtotal st \<le> 0)"
  by (auto simp: handleTransactionSubmit_def Let_def parseFloat_def)

lemma submit_zeroCashForm:
  "handleTransactionSubmit 5 zeroCashForm = Inl InsufficientCash"
  by (simp add: submit_eval fields_zeroCashForm bill_zeroCashForm)

text \<open>
  The comparison is between doubles: a bill of 13 at 10 percent is payable with 11.70,
  the double nearest to 11.7 being the cash payable that the bill computes; and 12.70
  given for it earns 1 point.
\<close>

lemma earned_tenths:
  "bd_pointsEarned (tenthsForm\<lparr>cashGiven := Some (127 / 10)\<rparr>) = 1"
  by (simp add: bd_pointsEarned_def bd_cashPayable_def bd_finalBill_def bd_pointsUsed_def
        bd_discountAmount_def bd_discountPercentage_def discountApplies_def bd_subtotal_def
        tierInfo_def getCustomerTier_def orZero_def example_defs js_eval)

lemma submit_tenthsForm:
  "bd_cashPayable tenthsForm = fl (117 / 10) \<and> \<not> isl (handleTransactionSubmit 5 tenthsForm)"
  using submit_numeric_cash [of tenthsForm "117 / 10" 5]
  by (simp add: fields_tenthsForm bill_tenthsForm fl_decimals)

text \<open>
  Claim C6. The claim is that a transaction whose amount given is missing or not
  numeric is rejected when the cash payable is positive, and the collection is left as
  it was. The handler commits it: the new customer's form with a bill of 1000 and the
  amount given left empty appends the customer.
\<close>

theorem handleTransactionSubmit_empty_cash_commits:
  "cashGiven emptyCashForm = None \<and> 0 < cashPayable (billDetails emptyCashForm)
   \<and> customers emptyCashForm = []
   \<and> handleTransactionSubmit 5 emptyCashForm =
     Inr ([\<lparr>mobile = ''+919123456780'', name = ''Meera'', pin = ''4321'', points = 0,
            totalSpent = 1000,
            history = [\<lparr>date = 5, bill = 1000, tx_discountPercentage = None,
                        tx_finalBill = 1000, tx_pointsUsed = Some 0, tx_points = 0\<rparr>]\<rparr>],
          \<lparr>ltd_mobile = ''+919123456780'', customerName = ''Meera'',
           ltd_businessName = ''Our Store'', ltd_finalBill = 1000, ltd_pointsUsed = 0,
           ltd_pointsEarned = 0, newTotalPoints = 0, deadlineDays = Some 365\<rparr>)"
proof -
  have "handleTransactionSubmit 5 emptyCashForm =
     Inr ([\<lparr>mobile = ''+919123456780'', name = ''Meera'', pin = ''4321'', points = 0,
            totalSpent = 1000,
            history = [\<lparr>date = 5, bill = 1000, tx_discountPercentage = None,
                        tx_finalBill = 1000, tx_pointsUsed = Some 0, tx_points = 0\<rparr>]\<rparr>],
          \<lparr>ltd_mobile = ''+919123456780'', customerName = ''Meera'',
           ltd_businessName = ''Our Store'', ltd_finalBill = 1000, ltd_pointsUsed = 0,
           ltd_pointsEarned = 0, newTotalPoints = 0, deadlineDays = Some 365\<rparr>)"
    by (simp add: submit_eval fields_emptyCashForm bill_emptyCashForm)
  then show ?thesis
    by (simp add: fields_emptyCashForm bill_emptyCashForm)
qed

text \<open>A commit keeps every consistent record consistent.\<close>

lemma newHistoryEntry_finalBill [simp]:
  "tx_finalBill (newHistoryEntry now st) = bd_finalBill st"
  by (simp add: newHistoryEntry_def Let_def)

lemma bd_finalBill_double [simp]: "fl (bd_finalBill st) = bd_finalBill st"
  by (simp add: bd_finalBill_def jsSub_def)














text \<open>
  The Bronze deadline of a new customer does not follow the points tier of the record
  created: a first payment that earns 200 points creates a customer who is Silver by
  points.
\<close>

lemma new_customer_points_tier:
  "bd_pointsEarned (newCustomerForm\<lparr>cashGiven := Some 1200\<rparr>) = 200
   \<and> getTierByPoints \<lparr>mobile = m, name = n, pin = p, points = 200, totalSpent = 1000,
                       history = h\<rparr> DEFAULT_TIER_SETTINGS = Silver"
  by (simp add: bd_pointsEarned_def bd_cashPayable_def bd_finalBill_def bd_pointsUsed_def
        bd_discountAmount_def discountApplies_def bd_subtotal_def orZero_def
        getTierByPoints_def example_defs js_eval)



text \<open>
  Claim C10. A committed transaction for the mobile key k leaves every customer of the
  collection whose mobile differs from k as it was, and leaves the mobile, the name and
  the pin of every customer as they were; the only record added is that of a new
  customer, under the key k.
\<close>

theorem handleTransactionSubmit_frame:
  assumes "handleTransactionSubmit now st = Inr (cs, d)"
  shows "length (customers st) \<le> length cs
       \<and> (\<forall>i<length (customers st).
             (mobile (customers st ! i) \<noteq> targetMobile st \<longrightarrow> cs ! i = customers st ! i)
             \<and> mobile (cs ! i) = mobile (customers st ! i)
             \<and> name (cs ! i) = name (customers st ! i)
             \<and> pin (cs ! i) = pin (customers st ! i))
       \<and> (\<forall>i. length (customers st) \<le> i \<and> i < length cs \<longrightarrow>
             isNewCustomer st \<and> mobile (cs ! i) = targetMobile st)"
proof (cases "isNewCustomer st")
  case True
  show ?thesis
    using True submit_new(1) [OF assms True] by (auto simp: nth_append)
next
  case False
  show ?thesis
    using submit_existing(1) [OF assms False] by (auto simp: updateCustomer_def)
qed

text \<open>
  Ravi's transaction leaves Asha's record as it was and changes Ravi's record, but not
  its mobile, name or pin.
\<close>

theorem handleTransactionSubmit_frame_witness:
  "\<exists>cs d. handleTransactionSubmit 5 lapsedForm = Inr (cs, d)
     \<and> customers lapsedForm = [asha, ravi] \<and> targetMobile lapsedForm = mobile ravi
     \<and> mobile asha \<noteq> targetMobile lapsedForm
     \<and> length cs = 2 \<and> cs ! 0 = asha
     \<and> mobile (cs ! 1) = mobile ravi \<and> name (cs ! 1) = name ravi \<and> pin (cs ! 1) = pin ravi
     \<and> cs ! 1 \<noteq> ravi"
proof -
  have 1: "customers lapsedForm = [asha, ravi]" "targetMobile lapsedForm = mobile ravi"
    "mobile asha \<noteq> mobile ravi"
    by (simp_all add: fields_lapsedForm targetMobile_def asha_def ravi_def)
  have 2: "ravi\<lparr>points := 550, totalSpent := 2500,
                 history := history ravi @
                   [\<lparr>date = 5, bill = 1000, tx_discountPercentage = None,
                     tx_finalBill = 1000, tx_pointsUsed = Some 0, tx_points = 0\<rparr>]\<rparr> \<noteq> ravi"
    by (simp add: ravi_def)
  show ?thesis
    using handleTransactionSubmit_frame [OF submit_lapsedForm] 1 2 submit_lapsedForm
    by simp
qed

end
